theory Spec2Isabelle
  imports Complex_Main "HOL-Library.AList"
begin

section \<open>JavaScript values used by the sources\<close>

text \<open>
  The sources are TypeScript. A \<^verbatim>\<open>number\<close> that holds a count, a resolution or a
  limit is modelled as \<^typ>\<open>int\<close>; a \<^verbatim>\<open>number\<close> that holds a coordinate, a distance,
  an area or a product with a fractional factor is modelled as \<^typ>\<open>real\<close> (the rounding
  of IEEE doubles is not modelled). A thrown \<^verbatim>\<open>Error\<close> is the value \<open>Inl (Error msg)\<close>
  of a sum type. Calls of \<^verbatim>\<open>console.log\<close> are left out: they have no effect on any
  value.
\<close>

datatype error = Error string

fun message :: "error \<Rightarrow> string" where
  "message (Error m) = m"

text \<open>
  A template literal prints an integer in decimal, with a minus sign when it is negative.
\<close>

definition digit_char :: "nat \<Rightarrow> char" where
  "digit_char d = ''0123456789'' ! (d mod 10)"

fun decimal_digits :: "nat \<Rightarrow> string" where
  "decimal_digits n = (if 10 \<le> n then decimal_digits (n div 10) else []) @ [digit_char n]"

declare decimal_digits.simps [simp del]

definition int_toString :: "int \<Rightarrow> string" where
  "int_toString i =
     (let digits = decimal_digits (nat \<bar>i\<bar>) in if i < 0 then CHR ''-'' # digits else digits)"

section \<open>hexagonSplitter.ts\<close>

type_synonym latlng = "real \<times> real"

text \<open>
  The grid library \<^verbatim>\<open>h3-js\<close> is a collaborator: the functions the sources call, each of
  which may throw (an invalid cell id, an invalid resolution).
\<close>

record h3js =
  cellToLatLng :: "string \<Rightarrow> error + latlng"
  cellToBoundary :: "string \<Rightarrow> bool \<Rightarrow> error + latlng list"
  cellArea :: "string \<Rightarrow> error + real"
  cellToChildren :: "string \<Rightarrow> int \<Rightarrow> error + string list"

datatype hex_status = Queued | Processing | Fetched | Dense | Failed | Split

text \<open>
  The optional fields \<open>yelpTotalBusinesses\<close> and \<open>searchPoints\<close> of a \<open>SplitHexagon\<close> are
  both created \<^verbatim>\<open>undefined\<close>; the second, of type \<^verbatim>\<open>unknown[]\<close>, is left out.
\<close>

record SplitHexagon =
  sh_h3Id :: string
  sh_parentH3Id :: string
  sh_resolution :: int
  sh_center :: latlng
  sh_status :: hex_status
  sh_yelpTotalBusinesses :: "int option"

record HexagonSplitResult =
  originalHexagon :: string
  splitHexagons :: "SplitHexagon list"
  totalSubHexagons :: int
  splitReason :: string
  estimatedCoverage :: string

definition detectDenseHexagon :: "int \<Rightarrow> bool" where
  "detectDenseHexagon n \<longleftrightarrow> n > 240"

text \<open>
  \<^verbatim>\<open>calculateCoverageImprovement\<close> is private and only reached from \<^verbatim>\<open>splitHexagon\<close>
  after its guard, so \<open>targetRes - currentRes\<close> is positive and \<^verbatim>\<open>Math.pow(7, d)\<close> is the
  integer \<open>7 ^ d\<close>.
\<close>

definition calculateCoverageImprovement :: "int \<Rightarrow> int \<Rightarrow> string" where
  "calculateCoverageImprovement currentRes targetRes =
     (let resolutionDiff = targetRes - currentRes;
          estimatedHexagons = (7::int) ^ nat resolutionDiff;
          improvement =
            (if estimatedHexagons \<ge> 49 then ''excellent''
             else if estimatedHexagons \<ge> 7 then ''good''
             else if estimatedHexagons \<ge> 2 then ''moderate''
             else ''minimal'')
      in improvement @ '' ('' @ int_toString estimatedHexagons @ ''x more hexagons)'')"

fun childObjects :: "h3js \<Rightarrow> string \<Rightarrow> int \<Rightarrow> string list \<Rightarrow> error + SplitHexagon list" where
  "childObjects h3 h3Id targetResolution [] = Inr []"
| "childObjects h3 h3Id targetResolution (childId # rest) =
     (case cellToLatLng h3 childId of
        Inl e \<Rightarrow> Inl e
      | Inr center \<Rightarrow>
          (case childObjects h3 h3Id targetResolution rest of
             Inl e \<Rightarrow> Inl e
           | Inr objs \<Rightarrow>
               Inr (\<lparr>sh_h3Id = childId, sh_parentH3Id = h3Id, sh_resolution = targetResolution,
                     sh_center = center, sh_status = Queued,
                     sh_yelpTotalBusinesses = None\<rparr> # objs)))"

definition splitHexagon_body :: "h3js \<Rightarrow> string \<Rightarrow> int \<Rightarrow> int \<Rightarrow> error + HexagonSplitResult" where
  "splitHexagon_body h3 h3Id currentResolution targetResolution =
     (if targetResolution \<le> currentResolution
      then Inl (Error ''Target resolution must be higher than current resolution'')
      else
        (case cellToChildren h3 h3Id targetResolution of
           Inl e \<Rightarrow> Inl e
         | Inr childHexagons \<Rightarrow>
             (case childObjects h3 h3Id targetResolution childHexagons of
                Inl e \<Rightarrow> Inl e
              | Inr objs \<Rightarrow>
                  Inr \<lparr>originalHexagon = h3Id,
                       splitHexagons = objs,
                       totalSubHexagons = int (length childHexagons),
                       splitReason = ''Dense hexagon with >240 businesses - split for better coverage'',
                       estimatedCoverage =
                         calculateCoverageImprovement currentResolution targetResolution\<rparr>)))"

text \<open>The \<^verbatim>\<open>catch\<close> of \<^verbatim>\<open>splitHexagon\<close> rethrows every error with a prefixed message.\<close>

definition splitHexagon :: "h3js \<Rightarrow> string \<Rightarrow> int \<Rightarrow> int \<Rightarrow> error + HexagonSplitResult" where
  "splitHexagon h3 h3Id currentResolution targetResolution =
     (case splitHexagon_body h3 h3Id currentResolution targetResolution of
        Inl e \<Rightarrow> Inl (Error (''Failed to split hexagon '' @ h3Id @ '': '' @ message e))
      | Inr r \<Rightarrow> Inr r)"

definition validateSplitConfiguration :: "int \<Rightarrow> int \<Rightarrow> bool" where
  "validateSplitConfiguration currentResolution targetResolution =
     (if targetResolution \<le> currentResolution then False
      else if targetResolution - currentResolution > 2 then False
      else if targetResolution > 12 then False
      else True)"

record Business =
  biz_id :: string

record SubHexagonResult =
  r_h3Id :: string
  r_businesses :: "Business list"
  r_total :: int

record MergeResult =
  mr_totalBusinesses :: int
  mr_uniqueBusinesses :: "Business list"
  mr_coverageStatus :: string
  mr_subHexagonStatus :: "string list"

text \<open>
  The inner loop of \<^verbatim>\<open>mergeSubHexagonResults\<close>: \<open>allBusinesses\<close> and the set
  \<open>businessIds\<close> are threaded through.
\<close>

fun addUnique :: "Business list \<times> string set \<Rightarrow> Business list \<Rightarrow> Business list \<times> string set" where
  "addUnique (allBusinesses, businessIds) [] = (allBusinesses, businessIds)"
| "addUnique (allBusinesses, businessIds) (business # rest) =
     (if biz_id business \<notin> businessIds
      then addUnique (allBusinesses @ [business], insert (biz_id business) businessIds) rest
      else addUnique (allBusinesses, businessIds) rest)"

record merge_loop =
  ml_totalBusinesses :: int
  ml_subHexagonStatus :: "string list"
  ml_allBusinesses :: "Business list"
  ml_businessIds :: "string set"

fun merge_results_loop :: "merge_loop \<Rightarrow> SubHexagonResult list \<Rightarrow> merge_loop" where
  "merge_results_loop st [] = st"
| "merge_results_loop st (result # rest) =
     (let status = (if r_total result > 240 then ''dense'' else ''fetched'');
          line = r_h3Id result @ '': '' @ status @ '' ('' @ int_toString (r_total result)
                 @ '' businesses)'';
          (all', ids') = addUnique (ml_allBusinesses st, ml_businessIds st) (r_businesses result)
      in merge_results_loop
           \<lparr>ml_totalBusinesses = ml_totalBusinesses st + r_total result,
            ml_subHexagonStatus = ml_subHexagonStatus st @ [line],
            ml_allBusinesses = all',
            ml_businessIds = ids'\<rparr> rest)"

definition merge_coverageStatus :: "SubHexagonResult list \<Rightarrow> string" where
  "merge_coverageStatus splitResults =
     (let coverageStatus = ''complete'';
          coverageStatus = (if list_ex (\<lambda>r. r_total r > 240) splitResults
                            then ''partial-dense'' else coverageStatus);
          coverageStatus = (if list_ex (\<lambda>r. r_total r = 0) splitResults
                            then ''partial-empty'' else coverageStatus)
      in coverageStatus)"

definition mergeSubHexagonResults :: "string \<Rightarrow> SubHexagonResult list \<Rightarrow> MergeResult" where
  "mergeSubHexagonResults originalH3Id splitResults =
     (let st = merge_results_loop
                 \<lparr>ml_totalBusinesses = 0, ml_subHexagonStatus = [], ml_allBusinesses = [],
                  ml_businessIds = {}\<rparr> splitResults
      in \<lparr>mr_totalBusinesses = ml_totalBusinesses st,
          mr_uniqueBusinesses = ml_allBusinesses st,
          mr_coverageStatus = merge_coverageStatus splitResults,
          mr_subHexagonStatus = ml_subHexagonStatus st\<rparr>)"

subsection \<open>Concrete inputs for hexagonSplitter.ts\<close>

definition child_result :: "string \<Rightarrow> int \<Rightarrow> SubHexagonResult" where
  "child_result i n = \<lparr>r_h3Id = i, r_businesses = [], r_total = n\<rparr>"

text \<open>A grid library that answers every call: each cell has the two children \<open>c1\<close>, \<open>c2\<close>.\<close>

definition demo_h3 :: h3js where
  "demo_h3 =
     \<lparr>cellToLatLng = (\<lambda>c. Inr (0, 0)),
      cellToBoundary = (\<lambda>c geo. Inr [(0, 1), (1, 1), (1, 0), (0, 1)]),
      cellArea = (\<lambda>c. Inr 5),
      cellToChildren = (\<lambda>c r. Inr [''c1'', ''c2''])\<rparr>"

section \<open>hexagonCoverage.ts\<close>

text \<open>
  \<^verbatim>\<open>Math.round\<close> rounds to the nearest integer, halves upwards. \<^verbatim>\<open>toFixed(1)\<close> prints
  the nearest multiple of one tenth, halves away from zero. It is applied to a real number
  here: where the double nearest to a number lies on the other side of a half (1.15 is
  stored slightly below), the code prints the neighbouring tenth. Only the description of
  the primary probe holds such a string.
\<close>

definition Math_round :: "real \<Rightarrow> real" where
  "Math_round x = of_int \<lfloor>x + 1 / 2\<rfloor>"

definition toFixed1 :: "real \<Rightarrow> string" where
  "toFixed1 x =
     (let n = nat \<lfloor>\<bar>x\<bar> * 10 + 1 / 2\<rfloor>
      in (if x < 0 then ''-'' else []) @ decimal_digits (n div 10) @ ''.'' @ decimal_digits (n mod 10))"

datatype point_type = Primary | Corner | Edge

record SearchPoint =
  sp_lat :: real
  sp_lng :: real
  sp_radius :: real
  sp_type :: point_type
  sp_description :: string

record HexagonCoverage =
  hc_h3Id :: string
  hc_center :: latlng
  hc_searchPoints :: "SearchPoint list"
  hc_totalRadius :: real
  hc_coverageStrategy :: string

text \<open>
  \<^verbatim>\<open>turf.distance(turf.point(a), turf.point(b), 'meters')\<close> is a collaborator: a function
  of the two pairs it is given, which may throw. Nothing is assumed about the number it
  returns. In particular it need not be the distance in metres between the centre and the
  vertex: the code swaps the two components of every vertex before the call, while it asks
  for the boundary in the order \<^verbatim>\<open>cellToBoundary(h3Id, true)\<close> gives, and it passes the
  unit as a bare string.
\<close>

type_synonym turf_distance = "real \<times> real \<Rightarrow> real \<times> real \<Rightarrow> error + real"

text \<open>The loop of \<^verbatim>\<open>calculateOptimalRadius\<close> over the boundary, \<open>maxDistance\<close> threaded.\<close>

fun max_distance_loop :: "turf_distance \<Rightarrow> latlng \<Rightarrow> latlng list \<Rightarrow> real \<Rightarrow> error + real" where
  "max_distance_loop distance center [] maxDistance = Inr maxDistance"
| "max_distance_loop distance center (corner # rest) maxDistance =
     (case distance (snd center, fst center) (snd corner, fst corner) of
        Inl e \<Rightarrow> Inl e
      | Inr d \<Rightarrow> max_distance_loop distance center rest (max maxDistance d))"

definition calculateOptimalRadius :: "turf_distance \<Rightarrow> latlng \<Rightarrow> latlng list \<Rightarrow> real" where
  "calculateOptimalRadius distance center boundary =
     (case max_distance_loop distance center boundary 0 of
        Inl e \<Rightarrow> 1060
      | Inr maxDistance \<Rightarrow>
          (let estimatedInradius = 1060;
               safeRadius = min (maxDistance * 0.9) (estimatedInradius * 1.1)
           in Math_round safeRadius))"

definition generateCornerSearches :: "latlng \<Rightarrow> latlng list \<Rightarrow> real \<Rightarrow> nat \<Rightarrow> SearchPoint list" where
  "generateCornerSearches center boundary primaryRadius maxCorners =
     (let estimatedInradius = 1060;
          maxSafeRadius = estimatedInradius * 0.9;
          cornerRadius = min (primaryRadius * 0.6) maxSafeRadius;
          cornersToUse = min maxCorners (length boundary)
      in map (\<lambda>i. let corner = boundary ! i
                   in \<lparr>sp_lat = fst corner, sp_lng = snd corner, sp_radius = cornerRadius,
                       sp_type = Corner,
                       sp_description = ''Corner '' @ decimal_digits (i + 1) @ '' coverage point''\<rparr>)
           [0 ..< cornersToUse])"

definition generateEdgeSearches :: "latlng \<Rightarrow> latlng list \<Rightarrow> real \<Rightarrow> nat \<Rightarrow> SearchPoint list" where
  "generateEdgeSearches center boundary primaryRadius maxEdges =
     (let estimatedInradius = 1060;
          maxSafeRadius = estimatedInradius * 0.9;
          edgeRadius = min (primaryRadius * 0.8) maxSafeRadius;
          edgesToUse = min maxEdges (length boundary)
      in map (\<lambda>i. let currentCorner = boundary ! i;
                       nextCorner = boundary ! ((i + 1) mod length boundary);
                       midLat = (fst currentCorner + fst nextCorner) / 2;
                       midLng = (snd currentCorner + snd nextCorner) / 2
                   in \<lparr>sp_lat = midLat, sp_lng = midLng, sp_radius = edgeRadius,
                       sp_type = Edge,
                       sp_description = ''Edge '' @ decimal_digits (i + 1) @ '' midpoint coverage''\<rparr>)
           [0 ..< edgesToUse])"

definition calculateHexagonArea :: "h3js \<Rightarrow> string \<Rightarrow> real" where
  "calculateHexagonArea h3 h3Id = (case cellArea h3 h3Id of Inl e \<Rightarrow> 0 | Inr area \<Rightarrow> area)"

definition primary_point :: "latlng \<Rightarrow> real \<Rightarrow> SearchPoint" where
  "primary_point center optimizedRadius =
     \<lparr>sp_lat = fst center, sp_lng = snd center, sp_radius = optimizedRadius, sp_type = Primary,
      sp_description =
        ''Center point with H3-optimized '' @ toFixed1 (optimizedRadius / 1000) @ ''km radius''\<rparr>"

definition generateAdaptiveSearchPoints ::
  "latlng \<Rightarrow> latlng list \<Rightarrow> real \<Rightarrow> real \<Rightarrow> SearchPoint list" where
  "generateAdaptiveSearchPoints center boundary primaryRadius hexagonArea =
     (let optimizedRadius = primaryRadius;
          searchPoints = [primary_point center optimizedRadius]
      in if hexagonArea > 8
         then searchPoints @ generateCornerSearches center boundary optimizedRadius 3
                @ generateEdgeSearches center boundary optimizedRadius 2
         else if hexagonArea > 3
         then searchPoints @ generateCornerSearches center boundary optimizedRadius 2
         else searchPoints)"

definition generateSearchPoints_body ::
  "h3js \<Rightarrow> turf_distance \<Rightarrow> string \<Rightarrow> error + HexagonCoverage" where
  "generateSearchPoints_body h3 distance h3Id =
     (case cellToLatLng h3 h3Id of
        Inl e \<Rightarrow> Inl e
      | Inr center \<Rightarrow>
          (case cellToBoundary h3 h3Id True of
             Inl e \<Rightarrow> Inl e
           | Inr boundary \<Rightarrow>
               (let primaryRadius = calculateOptimalRadius distance center boundary;
                    optimizedRadius = primaryRadius;
                    hexagonArea = calculateHexagonArea h3 h3Id;
                    searchPoints =
                      generateAdaptiveSearchPoints center boundary optimizedRadius hexagonArea
                in Inr \<lparr>hc_h3Id = h3Id, hc_center = center, hc_searchPoints = searchPoints,
                        hc_totalRadius = optimizedRadius,
                        hc_coverageStrategy = ''adaptive-coverage-optimized''\<rparr>)))"

text \<open>The \<^verbatim>\<open>catch\<close> of \<^verbatim>\<open>generateSearchPoints\<close> throws a new error naming the cell.\<close>

definition generateSearchPoints :: "h3js \<Rightarrow> turf_distance \<Rightarrow> string \<Rightarrow> error + HexagonCoverage" where
  "generateSearchPoints h3 distance h3Id =
     (case generateSearchPoints_body h3 distance h3Id of
        Inl e \<Rightarrow> Inl (Error (''Failed to generate search points for hexagon '' @ h3Id))
      | Inr coverage \<Rightarrow> Inr coverage)"

definition validateCoverage :: "h3js \<Rightarrow> HexagonCoverage \<Rightarrow> bool" where
  "validateCoverage h3 hexagonCoverage =
     (let h3Id = hc_h3Id hexagonCoverage;
          searchPoints = hc_searchPoints hexagonCoverage
      in if length searchPoints = 0 then False
         else (case find (\<lambda>p. sp_type p = Primary) searchPoints of
                 None \<Rightarrow> False
               | Some primaryPoint \<Rightarrow>
                   (let cornerPoints = filter (\<lambda>p. sp_type p = Corner) searchPoints;
                        hexagonArea = calculateHexagonArea h3 h3Id
                    in if hexagonArea > 10 \<and> length cornerPoints < 2 then False else True)))"

subsection \<open>Concrete inputs for hexagonCoverage.ts\<close>

text \<open>
  A distance that answers every call (the sum of the coordinate differences, scaled), a
  distance that always throws, and a grid library that knows no cell.
\<close>

definition demo_distance :: turf_distance where
  "demo_distance a b = Inr (1000 * (\<bar>fst a - fst b\<bar> + \<bar>snd a - snd b\<bar>))"

definition failing_distance :: turf_distance where
  "failing_distance a b = Inl (Error ''coordinates must contain numbers'')"

definition failing_h3 :: h3js where
  "failing_h3 =
     \<lparr>cellToLatLng = (\<lambda>c. Inl (Error ''Cell argument was not valid'')),
      cellToBoundary = (\<lambda>c geo. Inl (Error ''Cell argument was not valid'')),
      cellArea = (\<lambda>c. Inl (Error ''Cell argument was not valid'')),
      cellToChildren = (\<lambda>c r. Inl (Error ''Cell argument was not valid''))\<rparr>"

definition two_primaries :: HexagonCoverage where
  "two_primaries =
     \<lparr>hc_h3Id = ''p'', hc_center = (0, 0),
      hc_searchPoints = [primary_point (0, 0) 1000, primary_point (0, 0) 1000],
      hc_totalRadius = 1000, hc_coverageStrategy = ''adaptive-coverage-optimized''\<rparr>"

text \<open>A grid library whose cells are large (12 square km).\<close>

definition large_h3 :: h3js where
  "large_h3 = demo_h3\<lparr>cellArea := (\<lambda>c. Inr 12)\<rparr>"

definition square_boundary :: "latlng list" where
  "square_boundary = [(0, 1), (1, 1), (1, 0), (0, 1)]"

text \<open>
  The primary radius in the words of the specification (section 4.1): the smaller of 0.9
  times the distance to the farthest boundary vertex and 1.1 times the expected in-radius
  of the cell's grid resolution, as a function of that distance. The sources hold no table of in-radii; it is a parameter.
  \<open>inradius_by_resolution\<close> is one such table: 1060 m at resolution 7 (the constant of the
  source) and 400 m at resolution 8 (one level finer divides lengths by about \<open>\<surd>7\<close>).
\<close>

definition spec_primary_radius :: "(int \<Rightarrow> real) \<Rightarrow> int \<Rightarrow> real \<Rightarrow> real" where
  "spec_primary_radius expectedInradius resolution maxDistance =
     min (0.9 * maxDistance) (1.1 * expectedInradius resolution)"

definition inradius_by_resolution :: "int \<Rightarrow> real" where
  "inradius_by_resolution resolution = (if resolution = 8 then 400 else 1060)"

section \<open>apiQuotaManager.ts\<close>

text \<open>
  \<^verbatim>\<open>Date.now()\<close> is a parameter \<open>now\<close> of every method that reads the clock. The two
  \<^verbatim>\<open>setInterval\<close> timers of the constructor call \<open>resetDailyCounter\<close> and
  \<open>resetPerSecondCounter\<close> from outside.
\<close>

datatype risk_level = Low | Medium | High | Critical

record QuotaEstimate =
  estimatedCalls :: real
  currentDailyUsage :: int
  remainingQuota :: int
  canProcessRequest :: bool
  riskLevel :: risk_level
  recommendations :: "string list"

record APIQuotaManager =
  qm_dailyUsage :: int
  qm_lastReset :: int
  qm_dailyLimit :: int
  qm_perSecondLimit :: int
  qm_currentSecondUsage :: int
  qm_lastSecondReset :: int

definition new_APIQuotaManager :: "int \<Rightarrow> int \<Rightarrow> int \<Rightarrow> APIQuotaManager" where
  "new_APIQuotaManager now dailyLimit perSecondLimit =
     \<lparr>qm_dailyUsage = 0, qm_lastReset = now, qm_dailyLimit = dailyLimit,
      qm_perSecondLimit = perSecondLimit, qm_currentSecondUsage = 0, qm_lastSecondReset = now\<rparr>"

definition resetDailyCounter :: "int \<Rightarrow> APIQuotaManager \<Rightarrow> APIQuotaManager" where
  "resetDailyCounter now m = m\<lparr>qm_dailyUsage := 0, qm_lastReset := now\<rparr>"

definition resetPerSecondCounter :: "int \<Rightarrow> APIQuotaManager \<Rightarrow> APIQuotaManager" where
  "resetPerSecondCounter now m = m\<lparr>qm_currentSecondUsage := 0, qm_lastSecondReset := now\<rparr>"

definition trackAPICall :: "APIQuotaManager \<Rightarrow> APIQuotaManager" where
  "trackAPICall m =
     m\<lparr>qm_dailyUsage := qm_dailyUsage m + 1, qm_currentSecondUsage := qm_currentSecondUsage m + 1\<rparr>"

text \<open>
  \<open>dailyUsagePercentage\<close> is \<^verbatim>\<open>NaN\<close> or \<^verbatim>\<open>Infinity\<close> when the limit is 0; that is
  \<open>None\<close> here.
\<close>

record QuotaStatus =
  qs_dailyUsed :: int
  qs_dailyRemaining :: int
  qs_dailyUsagePercentage :: "real option"
  qs_perSecondUsed :: int
  qs_perSecondRemaining :: int
  qs_lastReset :: int

definition getQuotaStatus :: "APIQuotaManager \<Rightarrow> QuotaStatus" where
  "getQuotaStatus m =
     \<lparr>qs_dailyUsed = qm_dailyUsage m,
      qs_dailyRemaining = qm_dailyLimit m - qm_dailyUsage m,
      qs_dailyUsagePercentage =
        (if qm_dailyLimit m = 0 then None
         else Some (real_of_int (qm_dailyUsage m) / real_of_int (qm_dailyLimit m) * 100)),
      qs_perSecondUsed = qm_currentSecondUsage m,
      qs_perSecondRemaining = qm_perSecondLimit m - qm_currentSecondUsage m,
      qs_lastReset = qm_lastReset m\<rparr>"

definition estimateQuotaForCity :: "APIQuotaManager \<Rightarrow> int \<Rightarrow> real \<Rightarrow> real \<Rightarrow> QuotaEstimate" where
  "estimateQuotaForCity m hexagonCount averageSearchPointsPerHexagon estimatedPagesPerSearch =
     (let estimatedCalls =
            real_of_int hexagonCount * averageSearchPointsPerHexagon * estimatedPagesPerSearch;
          currentDailyUsage = qm_dailyUsage m;
          remainingQuota = qm_dailyLimit m - currentDailyUsage;
          canProcessRequest = (estimatedCalls \<le> real_of_int remainingQuota);
          (riskLevel, recommendations) =
            (if estimatedCalls > real_of_int remainingQuota * 0.8
             then (Critical, [''Request exceeds 80% of remaining quota'',
                              ''Consider processing in smaller batches'',
                              ''Wait for daily quota reset''])
             else if estimatedCalls > real_of_int remainingQuota * 0.6
             then (High, [''Request uses significant portion of remaining quota'',
                          ''Monitor usage closely''])
             else if estimatedCalls > real_of_int remainingQuota * 0.4
             then (Medium, [''Request uses moderate portion of remaining quota'',
                            ''Proceed with caution''])
             else (Low, [''Request well within quota limits'', ''Safe to proceed'']))
      in \<lparr>estimatedCalls = estimatedCalls, currentDailyUsage = currentDailyUsage,
          remainingQuota = remainingQuota, canProcessRequest = canProcessRequest,
          riskLevel = riskLevel, recommendations = recommendations\<rparr>)"

definition resetQuota :: "int \<Rightarrow> APIQuotaManager \<Rightarrow> APIQuotaManager" where
  "resetQuota now m =
     m\<lparr>qm_dailyUsage := 0, qm_currentSecondUsage := 0, qm_lastReset := now,
       qm_lastSecondReset := now\<rparr>"

text \<open>A quota manager with the limit \<open>dailyLimit\<close> of which \<open>used\<close> calls are spent.\<close>

definition quota_with :: "int \<Rightarrow> int \<Rightarrow> APIQuotaManager" where
  "quota_with dailyLimit used = (new_APIQuotaManager 0 dailyLimit 50)\<lparr>qm_dailyUsage := used\<rparr>"

section \<open>rateLimiter.ts\<close>

text \<open>
  JavaScript runs one callback at a time, so the rate limiter is a state machine whose
  steps are the synchronous stretches of code between two \<^verbatim>\<open>await\<close>s. Besides the fields
  of the class the state holds what the event loop keeps for it: the callers whose promise
  has been resolved, and the number of pending \<^verbatim>\<open>setTimeout(() => this.processQueue(), 1000)\<close>
  callbacks. A queued closure \<^verbatim>\<open>() => { this.makeRequest(); resolve(); }\<close> is named by its
  caller. The loop of \<open>processQueue\<close> is suspended at its \<^verbatim>\<open>await\<close> exactly when
  \<open>isProcessing\<close> is true between two steps.
\<close>

record RateLimiter =
  rl_dailyCalls :: int
  rl_lastReset :: int
  rl_perSecondCalls :: int
  rl_lastSecondReset :: int
  rl_requestQueue :: "nat list"
  rl_isProcessing :: bool
  rl_maxPerSecond :: int
  rl_maxPerDay :: int
  rl_resolved :: "nat list"
  rl_timers :: nat

definition new_RateLimiter :: "int \<Rightarrow> int \<Rightarrow> int \<Rightarrow> RateLimiter" where
  "new_RateLimiter now maxPerSecond maxPerDay =
     \<lparr>rl_dailyCalls = 0, rl_lastReset = now, rl_perSecondCalls = 0, rl_lastSecondReset = now,
      rl_requestQueue = [], rl_isProcessing = False, rl_maxPerSecond = maxPerSecond,
      rl_maxPerDay = maxPerDay, rl_resolved = [], rl_timers = 0\<rparr>"

definition rl_resetDailyCounter :: "int \<Rightarrow> RateLimiter \<Rightarrow> RateLimiter" where
  "rl_resetDailyCounter now l = l\<lparr>rl_dailyCalls := 0, rl_lastReset := now\<rparr>"

definition rl_resetPerSecondCounter :: "int \<Rightarrow> RateLimiter \<Rightarrow> RateLimiter" where
  "rl_resetPerSecondCounter now l = l\<lparr>rl_perSecondCalls := 0, rl_lastSecondReset := now\<rparr>"

definition canMakeRequest :: "RateLimiter \<Rightarrow> bool" where
  "canMakeRequest l =
     (if rl_dailyCalls l \<ge> rl_maxPerDay l then False
      else if rl_perSecondCalls l \<ge> rl_maxPerSecond l then False
      else True)"

definition makeRequest :: "RateLimiter \<Rightarrow> RateLimiter" where
  "makeRequest l =
     l\<lparr>rl_dailyCalls := rl_dailyCalls l + 1, rl_perSecondCalls := rl_perSecondCalls l + 1\<rparr>"

text \<open>The body of a closure: \<^verbatim>\<open>this.makeRequest(); resolve();\<close>\<close>

definition admit :: "nat \<Rightarrow> RateLimiter \<Rightarrow> RateLimiter" where
  "admit caller l = (let l' = makeRequest l in l'\<lparr>rl_resolved := rl_resolved l' @ [caller]\<rparr>)"

text \<open>
  The \<^verbatim>\<open>while\<close> loop of \<open>processQueue\<close>, from its test to the next \<^verbatim>\<open>await\<close> (one
  request released) or, when the test fails, to the end of the method.
\<close>

definition processQueue_loop :: "RateLimiter \<Rightarrow> RateLimiter" where
  "processQueue_loop l =
     (if length (rl_requestQueue l) > 0 \<and> canMakeRequest l
      then (case rl_requestQueue l of
              nextRequest # rest \<Rightarrow> admit nextRequest (l\<lparr>rl_requestQueue := rest\<rparr>)
            | [] \<Rightarrow> l)
      else (let l' = l\<lparr>rl_isProcessing := False\<rparr>
            in if length (rl_requestQueue l') > 0
               then l'\<lparr>rl_timers := rl_timers l' + 1\<rparr>
               else l'))"

definition processQueue :: "RateLimiter \<Rightarrow> RateLimiter" where
  "processQueue l =
     (if rl_isProcessing l \<or> length (rl_requestQueue l) = 0 then l
      else processQueue_loop (l\<lparr>rl_isProcessing := True\<rparr>))"

definition waitForSlot :: "nat \<Rightarrow> RateLimiter \<Rightarrow> RateLimiter" where
  "waitForSlot caller l =
     (if canMakeRequest l then admit caller l
      else processQueue (l\<lparr>rl_requestQueue := rl_requestQueue l @ [caller]\<rparr>))"

definition resetDailyQuota :: "int \<Rightarrow> RateLimiter \<Rightarrow> RateLimiter" where
  "resetDailyQuota now l = l\<lparr>rl_dailyCalls := 0, rl_lastReset := now\<rparr>"

text \<open>
  What can happen to a rate limiter: a caller calls \<open>waitForSlot\<close>; the 20 ms pause of the
  loop ends (only when the loop is suspended); a pending 1000 ms callback calls
  \<open>processQueue\<close> (only when one is pending); one of the two interval timers fires; the
  daily quota is reset by hand.
\<close>

datatype limiter_event =
    CallWaitForSlot nat
  | LoopResumes
  | QueueTimerFires
  | DailyInterval int
  | SecondInterval int
  | ManualReset int

fun limiter_step :: "limiter_event \<Rightarrow> RateLimiter \<Rightarrow> RateLimiter" where
  "limiter_step (CallWaitForSlot caller) l = waitForSlot caller l"
| "limiter_step LoopResumes l = (if rl_isProcessing l then processQueue_loop l else l)"
| "limiter_step QueueTimerFires l =
     (if rl_timers l > 0 then processQueue (l\<lparr>rl_timers := rl_timers l - 1\<rparr>) else l)"
| "limiter_step (DailyInterval now) l = rl_resetDailyCounter now l"
| "limiter_step (SecondInterval now) l = rl_resetPerSecondCounter now l"
| "limiter_step (ManualReset now) l = resetDailyQuota now l"

fun limiter_run :: "limiter_event list \<Rightarrow> RateLimiter \<Rightarrow> RateLimiter" where
  "limiter_run [] l = l"
| "limiter_run (e # es) l = limiter_run es (limiter_step e l)"

section \<open>hexagonProcessor.ts\<close>

text \<open>
  A JavaScript \<^verbatim>\<open>Map\<close> keeps its keys in insertion order: it is an association list with
  distinct keys, \<^verbatim>\<open>set\<close> is \<^const>\<open>AList.update\<close>, \<^verbatim>\<open>get\<close> is \<^const>\<open>map_of\<close>,
  \<^verbatim>\<open>size\<close> is the length and \<^verbatim>\<open>clear\<close> gives the empty list.
\<close>

record HexagonProcessingStatus =
  ps_h3Id :: string
  ps_resolution :: int
  ps_parentH3Id :: "string option"
  ps_childH3Ids :: "string list option"
  ps_status :: hex_status
  ps_coverageQuality :: string
  ps_searchPointsCount :: int
  ps_totalBusinesses :: "int option"
  ps_error :: "string option"
  ps_splitResult :: "HexagonSplitResult option"
  ps_processingTime :: "int option"
  ps_needsSubdivision :: bool
  ps_subdivisionResult :: "HexagonSplitResult option"

record HexagonProcessor =
  processingQueue :: "(string \<times> HexagonProcessingStatus) list"
  completedHexagons :: "(string \<times> HexagonProcessingStatus) list"
  failedHexagons :: "(string \<times> HexagonProcessingStatus) list"
  subdivisionQueue :: "(string \<times> HexagonProcessingStatus) list"
  parentChildRelationships :: "(string \<times> string list) list"
  childParentRelationships :: "(string \<times> string) list"

definition new_HexagonProcessor :: HexagonProcessor where
  "new_HexagonProcessor =
     \<lparr>processingQueue = [], completedHexagons = [], failedHexagons = [], subdivisionQueue = [],
      parentChildRelationships = [], childParentRelationships = []\<rparr>"

definition updateProcessingStatus ::
  "string \<Rightarrow> hex_status \<Rightarrow> int \<Rightarrow> HexagonProcessor \<Rightarrow> HexagonProcessor" where
  "updateProcessingStatus h3Id status resolution p =
     (let currentStatus =
            (case map_of (processingQueue p) h3Id of
               Some st \<Rightarrow> st
             | None \<Rightarrow>
                 \<lparr>ps_h3Id = h3Id, ps_resolution = resolution, ps_parentH3Id = None,
                  ps_childH3Ids = None, ps_status = Queued, ps_coverageQuality = ''unknown'',
                  ps_searchPointsCount = 0, ps_totalBusinesses = None, ps_error = None,
                  ps_splitResult = None, ps_processingTime = None, ps_needsSubdivision = False,
                  ps_subdivisionResult = None\<rparr>);
          currentStatus = currentStatus\<lparr>ps_status := status, ps_resolution := resolution\<rparr>
      in p\<lparr>processingQueue := AList.update h3Id currentStatus (processingQueue p)\<rparr>)"

text \<open>The loop of \<open>handleDenseHexagons\<close> that queues the children.\<close>

fun queue_children ::
  "string \<Rightarrow> int \<Rightarrow> SplitHexagon list \<Rightarrow> HexagonProcessor \<Rightarrow> HexagonProcessor" where
  "queue_children h3Id targetResolution [] p = p"
| "queue_children h3Id targetResolution (childHexagon # rest) p =
     (let childStatus =
            \<lparr>ps_h3Id = sh_h3Id childHexagon, ps_resolution = targetResolution,
             ps_parentH3Id = Some h3Id, ps_childH3Ids = None, ps_status = Queued,
             ps_coverageQuality = ''pending'', ps_searchPointsCount = 0,
             ps_totalBusinesses = None, ps_error = None, ps_splitResult = None,
             ps_processingTime = Some 0, ps_needsSubdivision = False,
             ps_subdivisionResult = None\<rparr>
      in queue_children h3Id targetResolution rest
           (p\<lparr>subdivisionQueue := AList.update (sh_h3Id childHexagon) childStatus (subdivisionQueue p),
              childParentRelationships :=
                AList.update (sh_h3Id childHexagon) h3Id (childParentRelationships p)\<rparr>))"

text \<open>
  \<open>handleDenseHexagons\<close>: both throwing statements of the \<^verbatim>\<open>try\<close> block come before its
  first write, so the \<^verbatim>\<open>catch\<close> block starts from the processor as it was.
\<close>

definition handleDenseHexagons ::
  "h3js \<Rightarrow> string \<Rightarrow> int \<Rightarrow> int \<Rightarrow> HexagonProcessor
     \<Rightarrow> HexagonProcessingStatus \<times> HexagonProcessor" where
  "handleDenseHexagons h3 h3Id totalBusinesses currentResolution p =
     (let attempt =
            (if \<not> detectDenseHexagon totalBusinesses
             then Inl (Error (''Hexagon '' @ h3Id @ '' is not dense (''
                              @ int_toString totalBusinesses @ '' businesses)''))
             else splitHexagon h3 h3Id currentResolution (currentResolution + 1))
      in case attempt of
           Inr splitResult \<Rightarrow>
             (let targetResolution = currentResolution + 1;
                  status =
                    \<lparr>ps_h3Id = h3Id, ps_resolution = currentResolution, ps_parentH3Id = None,
                     ps_childH3Ids = Some (map sh_h3Id (splitHexagons splitResult)),
                     ps_status = Split, ps_coverageQuality = ''dense-split'',
                     ps_searchPointsCount = 0, ps_totalBusinesses = Some totalBusinesses,
                     ps_error = None, ps_splitResult = Some splitResult,
                     ps_processingTime = Some 0, ps_needsSubdivision = True,
                     ps_subdivisionResult = Some splitResult\<rparr>;
                  p1 = updateProcessingStatus h3Id Split currentResolution p;
                  p2 = p1\<lparr>completedHexagons := AList.update h3Id status (completedHexagons p1)\<rparr>;
                  childH3Ids = map sh_h3Id (splitHexagons splitResult);
                  p3 = p2\<lparr>parentChildRelationships :=
                            AList.update h3Id childH3Ids (parentChildRelationships p2)\<rparr>
              in (status, queue_children h3Id targetResolution (splitHexagons splitResult) p3))
         | Inl e \<Rightarrow>
             (let failedStatus =
                    \<lparr>ps_h3Id = h3Id, ps_resolution = currentResolution, ps_parentH3Id = None,
                     ps_childH3Ids = None, ps_status = Failed, ps_coverageQuality = ''unknown'',
                     ps_searchPointsCount = 0, ps_totalBusinesses = None,
                     ps_error = Some (message e), ps_splitResult = None,
                     ps_processingTime = Some 0, ps_needsSubdivision = False,
                     ps_subdivisionResult = None\<rparr>;
                  p1 = updateProcessingStatus h3Id Failed currentResolution p
              in (failedStatus,
                  p1\<lparr>failedHexagons := AList.update h3Id failedStatus (failedHexagons p1)\<rparr>)))"

record ProcessingStats =
  st_queued :: int
  st_processing :: int
  st_completed :: int
  st_failed :: int
  st_split :: int
  st_total :: int
  st_resolution7 :: int
  st_resolution8 :: int
  st_subdivisionQueue :: int
  st_parentChildRelationships :: int

definition getProcessingStats :: "HexagonProcessor \<Rightarrow> ProcessingStats" where
  "getProcessingStats p =
     (let queued = int (length (filter (\<lambda>h. ps_status h = Queued) (map snd (processingQueue p))));
          processing =
            int (length (filter (\<lambda>h. ps_status h = Processing) (map snd (processingQueue p))));
          completed = int (length (completedHexagons p));
          failed = int (length (failedHexagons p));
          split = int (length (filter (\<lambda>h. ps_status h = Split) (map snd (completedHexagons p))));
          resolution7 =
            int (length (filter (\<lambda>h. ps_resolution h = 7) (map snd (completedHexagons p))));
          resolution8 =
            int (length (filter (\<lambda>h. ps_resolution h = 8) (map snd (completedHexagons p))));
          subdivisionQueue = int (length (subdivisionQueue p));
          parentChildRelationships = int (length (parentChildRelationships p))
      in \<lparr>st_queued = queued, st_processing = processing, st_completed = completed,
          st_failed = failed, st_split = split,
          st_total = queued + processing + completed + failed,
          st_resolution7 = resolution7, st_resolution8 = resolution8,
          st_subdivisionQueue = subdivisionQueue,
          st_parentChildRelationships = parentChildRelationships\<rparr>)"

definition clearHistory :: "HexagonProcessor \<Rightarrow> HexagonProcessor" where
  "clearHistory p =
     p\<lparr>processingQueue := [], completedHexagons := [], failedHexagons := [],
       subdivisionQueue := [], parentChildRelationships := [], childParentRelationships := []\<rparr>"

section \<open>The module singletons and the route \<^verbatim>\<open>app/api/yelp/route.ts\<close>\<close>

text \<open>
  The modules export one instance each: \<open>hexagonProcessor\<close>, \<open>yelpQuotaManager\<close> and
  \<open>yelpRateLimiter\<close>. A method of one of them changes that component alone.
\<close>

record system =
  hexagonProcessor :: HexagonProcessor
  yelpQuotaManager :: APIQuotaManager
  yelpRateLimiter :: RateLimiter

definition initial_system :: "int \<Rightarrow> system" where
  "initial_system now =
     \<lparr>hexagonProcessor = new_HexagonProcessor,
      yelpQuotaManager = new_APIQuotaManager now 5000 50,
      yelpRateLimiter = new_RateLimiter now 50 5000\<rparr>"

text \<open>The call \<^verbatim>\<open>hexagonProcessor.clearHistory()\<close> in the system.\<close>

definition hexagonProcessor_clearHistory :: "system \<Rightarrow> system" where
  "hexagonProcessor_clearHistory sys =
     sys\<lparr>hexagonProcessor := clearHistory (hexagonProcessor sys)\<rparr>"

text \<open>
  The function \<open>clearHistory\<close> of the route, which serves the action \<open>clear_history\<close>:
  \<^verbatim>\<open>hexagonProcessor.clearHistory(); yelpQuotaManager.resetQuota(); yelpRateLimiter.resetDailyQuota();\<close>
\<close>

definition route_clearHistory :: "int \<Rightarrow> system \<Rightarrow> system" where
  "route_clearHistory now sys =
     (let sys1 = sys\<lparr>hexagonProcessor := clearHistory (hexagonProcessor sys)\<rparr>;
          sys2 = sys1\<lparr>yelpQuotaManager := resetQuota now (yelpQuotaManager sys1)\<rparr>;
          sys3 = sys2\<lparr>yelpRateLimiter := resetDailyQuota now (yelpRateLimiter sys2)\<rparr>
      in sys3)"

text \<open>
  A system that has worked: one dense cell was split into its children and three API calls
  were tracked.
\<close>

definition busy_system :: system where
  "busy_system =
     (let sys = initial_system 0;
          (st, p) = handleDenseHexagons demo_h3 ''p'' 300 7 (hexagonProcessor sys)
      in sys\<lparr>hexagonProcessor := p,
             yelpQuotaManager := trackAPICall (trackAPICall (trackAPICall (yelpQuotaManager sys)))\<rparr>)"

definition zero_stats :: ProcessingStats where
  "zero_stats =
     \<lparr>st_queued = 0, st_processing = 0, st_completed = 0, st_failed = 0, st_split = 0,
      st_total = 0, st_resolution7 = 0, st_resolution8 = 0, st_subdivisionQueue = 0,
      st_parentChildRelationships = 0\<rparr>"

section \<open>yelpSearch.ts\<close>

text \<open>
  A Yelp business is a record with an \<open>id\<close>; of its other fields the name, the rating, the
  review count and the coordinates are kept, the rest is carried along in the same way.
\<close>

record YelpBusiness = Business +
  yb_name :: string
  yb_rating :: real
  yb_review_count :: int
  yb_coordinates :: latlng



datatype search_status = success | partial | failed


















subsection \<open>Concrete inputs for yelpSearch.ts\<close>

definition business :: "string \<Rightarrow> YelpBusiness" where
  "business i =
     \<lparr>biz_id = i, yb_name = ''Cafe '' @ i, yb_rating = 4, yb_review_count = 10,
      yb_coordinates = (0, 0)\<rparr>"





subsection \<open>Concrete inputs for rateLimiter.ts\<close>

text \<open>
  Three callers of a limiter that admits one call per second and two per day: the first is
  admitted at once, the second after the next second has begun, the third stays queued.
\<close>

definition three_callers :: "limiter_event list" where
  "three_callers =
     [CallWaitForSlot 1, CallWaitForSlot 2, CallWaitForSlot 3, SecondInterval 1000,
      QueueTimerFires, LoopResumes, LoopResumes]"

section \<open>Properties of hexagonSplitter.ts\<close>

lemma childObjects_succeeds:
  "(\<forall>c \<in> set cs. \<not> isl (cellToLatLng h3 c)) \<Longrightarrow> \<not> isl (childObjects h3 h3Id t cs)"
  by (induction cs) (auto split: sum.splits)

text \<open>
  C1 (as amended). The coverage status of \<^verbatim>\<open>mergeSubHexagonResults\<close> is
  \<open>partial-empty\<close> if any child's total is zero; otherwise \<open>partial-dense\<close> if any
  child's total exceeds 240; otherwise \<open>complete\<close>. The second \<^verbatim>\<open>if\<close> of the source
  overwrites the first, so a zero-count child takes precedence over a dense one.
\<close>

theorem mergeSubHexagonResults_coverageStatus:
  "mr_coverageStatus (mergeSubHexagonResults originalH3Id splitResults) =
     (if \<exists>r \<in> set splitResults. r_total r = 0 then ''partial-empty''
      else if \<exists>r \<in> set splitResults. r_total r > 240 then ''partial-dense''
      else ''complete'')"
  by (simp add: mergeSubHexagonResults_def merge_coverageStatus_def list_ex_iff Let_def)

theorem mergeSubHexagonResults_coverageStatus_witness:
  "mr_coverageStatus (mergeSubHexagonResults ''p'' [child_result ''a'' 50, child_result ''b'' 300])
     = ''partial-dense''"
  using mergeSubHexagonResults_coverageStatus
          [of "''p''" "[child_result ''a'' 50, child_result ''b'' 300]"]
  by (simp add: child_result_def)

text \<open>
  C1 as stated fails: for the child counts 50, 0, 300 the result is \<open>partial-empty\<close>, not
  \<open>partial-dense\<close>.
\<close>

theorem mergeSubHexagonResults_dense_and_empty:
  "mr_coverageStatus (mergeSubHexagonResults ''p''
      [child_result ''a'' 50, child_result ''b'' 0, child_result ''c'' 300]) = ''partial-empty''
   \<and> mr_coverageStatus (mergeSubHexagonResults ''p''
      [child_result ''a'' 50, child_result ''b'' 0, child_result ''c'' 300]) \<noteq> ''partial-dense''"
  by (simp add: mergeSubHexagonResults_def merge_coverageStatus_def child_result_def)

text \<open>
  C5 (as amended). \<^verbatim>\<open>splitHexagon\<close> fails whenever the target resolution is not strictly
  greater than the current one. It makes no other check of the resolutions: whenever the
  target is greater and the grid library answers, it returns a result, whatever the size of
  the jump and however high the target. Jumps of more than 2 levels and targets above 12
  are rejected by the separate predicate \<^verbatim>\<open>validateSplitConfiguration\<close>, which
  \<^verbatim>\<open>splitHexagon\<close> does not call.
\<close>

theorem splitHexagon_rejects:
  "(targetResolution \<le> currentResolution \<longrightarrow>
      splitHexagon h3 h3Id currentResolution targetResolution =
        Inl (Error (''Failed to split hexagon '' @ h3Id
                    @ '': Target resolution must be higher than current resolution'')))
   \<and> (currentResolution < targetResolution
        \<and> cellToChildren h3 h3Id targetResolution = Inr childHexagons
        \<and> (\<forall>c \<in> set childHexagons. \<not> isl (cellToLatLng h3 c)) \<longrightarrow>
      \<not> isl (splitHexagon h3 h3Id currentResolution targetResolution))
   \<and> (validateSplitConfiguration currentResolution targetResolution \<longleftrightarrow>
        currentResolution < targetResolution
        \<and> targetResolution - currentResolution \<le> 2 \<and> targetResolution \<le> 12)"
proof (intro conjI impI)
  assume "targetResolution \<le> currentResolution"
  then show "splitHexagon h3 h3Id currentResolution targetResolution =
        Inl (Error (''Failed to split hexagon '' @ h3Id
                    @ '': Target resolution must be higher than current resolution''))"
    by (simp add: splitHexagon_def splitHexagon_body_def)
next
  assume a: "currentResolution < targetResolution
        \<and> cellToChildren h3 h3Id targetResolution = Inr childHexagons
        \<and> (\<forall>c \<in> set childHexagons. \<not> isl (cellToLatLng h3 c))"
  then have "\<not> isl (childObjects h3 h3Id targetResolution childHexagons)"
    by (simp add: childObjects_succeeds)
  with a show "\<not> isl (splitHexagon h3 h3Id currentResolution targetResolution)"
    by (auto simp: splitHexagon_def splitHexagon_body_def split: sum.splits)
next
  show "validateSplitConfiguration currentResolution targetResolution \<longleftrightarrow>
        currentResolution < targetResolution
        \<and> targetResolution - currentResolution \<le> 2 \<and> targetResolution \<le> 12"
    by (auto simp: validateSplitConfiguration_def)
qed

theorem splitHexagon_rejects_witness:
  "splitHexagon demo_h3 ''p'' 8 7 =
     Inl (Error ''Failed to split hexagon p: Target resolution must be higher than current resolution'')
   \<and> \<not> isl (splitHexagon demo_h3 ''p'' 7 8)
   \<and> validateSplitConfiguration 7 8
   \<and> \<not> validateSplitConfiguration 7 10
   \<and> \<not> validateSplitConfiguration 12 13"
  using splitHexagon_rejects [of 7 8 demo_h3 "''p''" "[''c1'', ''c2'']"]
        splitHexagon_rejects [of 8 7 demo_h3 "''p''" "[''c1'', ''c2'']"]
        splitHexagon_rejects [of 10 7 demo_h3 "''p''" "[''c1'', ''c2'']"]
        splitHexagon_rejects [of 13 12 demo_h3 "''p''" "[''c1'', ''c2'']"]
  by (simp add: demo_h3_def)

text \<open>
  C5 as stated fails: a jump of three levels (7 to 10) and a target above 12 (12 to 13) are
  both split without an error.
\<close>

theorem splitHexagon_large_jump_accepted:
  "splitHexagon demo_h3 ''p'' 7 10 =
     Inr \<lparr>originalHexagon = ''p'',
          splitHexagons =
            [\<lparr>sh_h3Id = ''c1'', sh_parentH3Id = ''p'', sh_resolution = 10, sh_center = (0, 0),
              sh_status = Queued, sh_yelpTotalBusinesses = None\<rparr>,
             \<lparr>sh_h3Id = ''c2'', sh_parentH3Id = ''p'', sh_resolution = 10, sh_center = (0, 0),
              sh_status = Queued, sh_yelpTotalBusinesses = None\<rparr>],
          totalSubHexagons = 2,
          splitReason = ''Dense hexagon with >240 businesses - split for better coverage'',
          estimatedCoverage = ''excellent (343x more hexagons)''\<rparr>
   \<and> \<not> isl (splitHexagon demo_h3 ''p'' 12 13)"
  by (simp add: splitHexagon_def splitHexagon_body_def demo_h3_def
        calculateCoverageImprovement_def int_toString_def decimal_digits.simps digit_char_def)

section \<open>Properties of hexagonCoverage.ts\<close>

lemma length_generateCornerSearches:
  "length (generateCornerSearches center boundary r k) = min k (length boundary)"
  by (simp add: generateCornerSearches_def Let_def)

lemma length_generateEdgeSearches:
  "length (generateEdgeSearches center boundary r k) = min k (length boundary)"
  by (simp add: generateEdgeSearches_def Let_def)

lemma type_generateCornerSearches:
  "map sp_type (generateCornerSearches center boundary r k) =
     replicate (min k (length boundary)) Corner"
  by (simp add: generateCornerSearches_def Let_def o_def map_replicate_const)

lemma type_generateEdgeSearches:
  "map sp_type (generateEdgeSearches center boundary r k) =
     replicate (min k (length boundary)) Edge"
  by (simp add: generateEdgeSearches_def Let_def o_def map_replicate_const)

lemma types_generateAdaptiveSearchPoints:
  "map sp_type (generateAdaptiveSearchPoints center boundary r area) =
     Primary #
       (if area > 8
        then replicate (min 3 (length boundary)) Corner @ replicate (min 2 (length boundary)) Edge
        else if area > 3 then replicate (min 2 (length boundary)) Corner
        else [])"
  by (simp add: generateAdaptiveSearchPoints_def Let_def primary_point_def
        type_generateCornerSearches type_generateEdgeSearches)

lemma hd_generateAdaptiveSearchPoints:
  "hd (generateAdaptiveSearchPoints center boundary r area) = primary_point center r"
  by (simp add: generateAdaptiveSearchPoints_def Let_def)

lemma max_distance_loop_fold:
  "\<forall>c \<in> set boundary. distance (snd center, fst center) (snd c, fst c) = Inr (dst c) \<Longrightarrow>
   max_distance_loop distance center boundary m = Inr (fold max (map dst boundary) m)"
  by (induction boundary arbitrary: m) (simp_all add: max.commute)

lemma max_distance_loop_Max:
  "\<forall>c \<in> set boundary. distance (snd center, fst center) (snd c, fst c) = Inr (dst c) \<Longrightarrow>
   max_distance_loop distance center boundary m = Inr (Max (insert m (dst ` set boundary)))"
  using Max.set_eq_fold [of m "map dst boundary"]
  by (simp add: max_distance_loop_fold)

lemma max_distance_loop_fails:
  "c \<in> set boundary \<Longrightarrow> isl (distance (snd center, fst center) (snd c, fst c)) \<Longrightarrow>
   isl (max_distance_loop distance center boundary m)"
  by (induction boundary arbitrary: m) (auto split: sum.splits)

lemma find_None_Bex:
  "(find P xs = None) \<longleftrightarrow> \<not> (\<exists>p \<in> set xs. P p)"
  by (simp add: find_None_iff Bex_def)

lemma generateSearchPoints_Inr:
  assumes "cellToLatLng h3 h3Id = Inr center" and "cellToBoundary h3 h3Id True = Inr boundary"
  shows "generateSearchPoints h3 distance h3Id =
           Inr \<lparr>hc_h3Id = h3Id, hc_center = center,
                hc_searchPoints =
                  generateAdaptiveSearchPoints center boundary
                    (calculateOptimalRadius distance center boundary)
                    (calculateHexagonArea h3 h3Id),
                hc_totalRadius = calculateOptimalRadius distance center boundary,
                hc_coverageStrategy = ''adaptive-coverage-optimized''\<rparr>"
  using assms by (simp add: generateSearchPoints_def generateSearchPoints_body_def Let_def)

text \<open>
  C2 (as amended). \<^verbatim>\<open>generateSearchPoints\<close> raises the error \<open>Failed to generate
  search points for hexagon <id>\<close> to its caller whenever the grid library fails to give
  the cell's centre or boundary. When both are given it returns a plan: if the distance
  computation fails the primary radius falls back to the fixed 1060 m, and if the area
  computation fails the area counts as 0 and the plan is the primary probe alone.
\<close>

theorem generateSearchPoints_failure_modes:
  "(isl (cellToLatLng h3 h3Id) \<or> isl (cellToBoundary h3 h3Id True) \<longrightarrow>
      generateSearchPoints h3 distance h3Id =
        Inl (Error (''Failed to generate search points for hexagon '' @ h3Id)))
   \<and> (cellToLatLng h3 h3Id = Inr center \<and> cellToBoundary h3 h3Id True = Inr boundary \<longrightarrow>
        (\<exists>cov. generateSearchPoints h3 distance h3Id = Inr cov
           \<and> (isl (max_distance_loop distance center boundary 0) \<longrightarrow>
                hc_totalRadius cov = 1060 \<and> sp_radius (hd (hc_searchPoints cov)) = 1060)
           \<and> (isl (cellArea h3 h3Id) \<longrightarrow> length (hc_searchPoints cov) = 1)))"
proof (intro conjI impI)
  assume "isl (cellToLatLng h3 h3Id) \<or> isl (cellToBoundary h3 h3Id True)"
  then show "generateSearchPoints h3 distance h3Id =
        Inl (Error (''Failed to generate search points for hexagon '' @ h3Id))"
    by (auto simp: generateSearchPoints_def generateSearchPoints_body_def split: sum.splits)
next
  assume a: "cellToLatLng h3 h3Id = Inr center \<and> cellToBoundary h3 h3Id True = Inr boundary"
  let ?cov = "\<lparr>hc_h3Id = h3Id, hc_center = center,
                hc_searchPoints =
                  generateAdaptiveSearchPoints center boundary
                    (calculateOptimalRadius distance center boundary)
                    (calculateHexagonArea h3 h3Id),
                hc_totalRadius = calculateOptimalRadius distance center boundary,
                hc_coverageStrategy = ''adaptive-coverage-optimized''\<rparr>"
  have r: "generateSearchPoints h3 distance h3Id = Inr ?cov"
    using a by (simp add: generateSearchPoints_Inr)
  have f: "isl (max_distance_loop distance center boundary 0) \<longrightarrow>
             hc_totalRadius ?cov = 1060 \<and> sp_radius (hd (hc_searchPoints ?cov)) = 1060"
    by (auto simp: calculateOptimalRadius_def hd_generateAdaptiveSearchPoints primary_point_def
          split: sum.splits)
  have g: "isl (cellArea h3 h3Id) \<longrightarrow> length (hc_searchPoints ?cov) = 1"
    by (auto simp: calculateHexagonArea_def generateAdaptiveSearchPoints_def Let_def
          split: sum.splits)
  from r f g show "\<exists>cov. generateSearchPoints h3 distance h3Id = Inr cov
           \<and> (isl (max_distance_loop distance center boundary 0) \<longrightarrow>
                hc_totalRadius cov = 1060 \<and> sp_radius (hd (hc_searchPoints cov)) = 1060)
           \<and> (isl (cellArea h3 h3Id) \<longrightarrow> length (hc_searchPoints cov) = 1)"
    by blast
qed

theorem generateSearchPoints_failure_modes_witness:
  "generateSearchPoints failing_h3 failing_distance ''q'' =
     Inl (Error ''Failed to generate search points for hexagon q'')
   \<and> (\<exists>cov. generateSearchPoints demo_h3 failing_distance ''p'' = Inr cov
         \<and> hc_totalRadius cov = 1060 \<and> sp_radius (hd (hc_searchPoints cov)) = 1060)"
  using generateSearchPoints_failure_modes
          [of failing_h3 "''q''" failing_distance "(0, 0)" square_boundary]
        generateSearchPoints_failure_modes
          [of demo_h3 "''p''" failing_distance "(0, 0)" square_boundary]
  by (simp add: failing_h3_def demo_h3_def failing_distance_def square_boundary_def)

text \<open>
  C2 as stated fails: for a cell id the grid library rejects, the planner raises.
\<close>

theorem generateSearchPoints_raises:
  "generateSearchPoints failing_h3 demo_distance ''bad'' =
     Inl (Error ''Failed to generate search points for hexagon bad'')"
  by (simp add: generateSearchPoints_def generateSearchPoints_body_def failing_h3_def)

text \<open>
  C4 (as amended). The primary probe's radius is \<^verbatim>\<open>Math.round\<close> of the smaller of 0.9
  times \<open>m\<close> and 1.1 times 1060, where \<open>m\<close> is the largest of the values the calls of
  \<^verbatim>\<open>turf.distance\<close> return for the boundary vertices (0 when there is none) and 1060 m is
  the in-radius of grid resolution 7, used for cells of every resolution: the radius is a
  function of those values alone. It is 1060 when one of the calls throws. Whether \<open>m\<close> is
  the distance in metres to the farthest vertex is left open.
\<close>

theorem calculateOptimalRadius_value:
  "((\<forall>c \<in> set boundary. distance (snd center, fst center) (snd c, fst c) = Inr (dst c)) \<longrightarrow>
      calculateOptimalRadius distance center boundary =
        Math_round (min (0.9 * Max (insert 0 (dst ` set boundary))) (1.1 * 1060)))
   \<and> ((\<exists>c \<in> set boundary. isl (distance (snd center, fst center) (snd c, fst c))) \<longrightarrow>
        calculateOptimalRadius distance center boundary = 1060)
   \<and> (cellToLatLng h3 h3Id = Inr center \<and> cellToBoundary h3 h3Id True = Inr boundary
        \<and> generateSearchPoints h3 distance h3Id = Inr cov \<longrightarrow>
        sp_type (hd (hc_searchPoints cov)) = Primary
        \<and> sp_radius (hd (hc_searchPoints cov)) = calculateOptimalRadius distance center boundary)"
proof (intro conjI impI)
  assume "\<forall>c \<in> set boundary. distance (snd center, fst center) (snd c, fst c) = Inr (dst c)"
  then have "max_distance_loop distance center boundary 0 =
               Inr (Max (insert 0 (dst ` set boundary)))"
    by (rule max_distance_loop_Max)
  then show "calculateOptimalRadius distance center boundary =
        Math_round (min (0.9 * Max (insert 0 (dst ` set boundary))) (1.1 * 1060))"
    by (simp add: calculateOptimalRadius_def mult.commute)
next
  assume "\<exists>c \<in> set boundary. isl (distance (snd center, fst center) (snd c, fst c))"
  then have "isl (max_distance_loop distance center boundary 0)"
    by (auto intro: max_distance_loop_fails)
  then show "calculateOptimalRadius distance center boundary = 1060"
    by (auto simp: calculateOptimalRadius_def split: sum.splits)
next
  assume a: "cellToLatLng h3 h3Id = Inr center \<and> cellToBoundary h3 h3Id True = Inr boundary
        \<and> generateSearchPoints h3 distance h3Id = Inr cov"
  then have c: "hc_searchPoints cov =
      generateAdaptiveSearchPoints center boundary
        (calculateOptimalRadius distance center boundary) (calculateHexagonArea h3 h3Id)"
    using generateSearchPoints_Inr [of h3 h3Id center boundary distance] by auto
  show "sp_type (hd (hc_searchPoints cov)) = Primary"
    by (simp add: c hd_generateAdaptiveSearchPoints primary_point_def)
  show "sp_radius (hd (hc_searchPoints cov)) = calculateOptimalRadius distance center boundary"
    by (simp add: c hd_generateAdaptiveSearchPoints primary_point_def)
qed

theorem calculateOptimalRadius_value_witness:
  "calculateOptimalRadius demo_distance (0, 0) square_boundary = 1166
   \<and> calculateOptimalRadius failing_distance (0, 0) square_boundary = 1060
   \<and> (\<exists>cov. generateSearchPoints demo_h3 demo_distance ''p'' = Inr cov
         \<and> sp_type (hd (hc_searchPoints cov)) = Primary
         \<and> sp_radius (hd (hc_searchPoints cov)) = 1166)"
proof -
  let ?dst = "\<lambda>c::latlng. 1000 * (\<bar>snd c\<bar> + \<bar>fst c\<bar>)"
  have h: "\<forall>c \<in> set square_boundary.
             demo_distance (snd (0::real, 0::real), fst (0::real, 0::real)) (snd c, fst c) = Inr (?dst c)"
    by (simp add: demo_distance_def square_boundary_def)
  have M: "Max (insert 0 (?dst ` set square_boundary)) = 2000"
    by (simp add: square_boundary_def)
  have f: "\<exists>c \<in> set square_boundary.
             isl (failing_distance (snd (0::real, 0::real), fst (0::real, 0::real)) (snd c, fst c))"
    by (auto simp: failing_distance_def square_boundary_def)
  have c: "cellToLatLng demo_h3 ''p'' = Inr (0, 0)
           \<and> cellToBoundary demo_h3 ''p'' True = Inr square_boundary"
    by (simp add: demo_h3_def square_boundary_def)
  obtain cov where cov: "generateSearchPoints demo_h3 demo_distance ''p'' = Inr cov"
    using c by (simp add: generateSearchPoints_Inr)
  have e: "calculateOptimalRadius demo_distance (0, 0) square_boundary =
             Math_round (min (0.9 * Max (insert 0 (?dst ` set square_boundary))) (1.1 * 1060))"
    using calculateOptimalRadius_value
            [of square_boundary demo_distance "(0, 0)" ?dst demo_h3 "''p''" cov] h
    by blast
  have r1: "calculateOptimalRadius demo_distance (0, 0) square_boundary = 1166"
    unfolding e M by (simp add: Math_round_def)
  have r2: "calculateOptimalRadius failing_distance (0, 0) square_boundary = 1060"
    using calculateOptimalRadius_value
            [of square_boundary failing_distance "(0, 0)" ?dst demo_h3 "''p''" cov] f
    by blast
  have r3: "sp_type (hd (hc_searchPoints cov)) = Primary
         \<and> sp_radius (hd (hc_searchPoints cov)) = 1166"
    using calculateOptimalRadius_value
            [of square_boundary demo_distance "(0, 0)" ?dst demo_h3 "''p''" cov] c cov r1
    by simp
  from r1 r2 r3 cov show ?thesis by blast
qed

text \<open>
  C4 as stated fails, even with a distance call that returns the distance to each vertex.
  A cell of resolution 8 for whose farthest vertex the call returns 500 gets the radius
  450, where the in-radius of its own resolution (400 m) would give 440; and a cell for
  whose farthest vertex the call returns 1000.5 gets the rounded radius 900, not 900.45.
\<close>

theorem primary_radius_ignores_resolution:
  "max_distance_loop demo_distance (0, 0) [(0.25, 0.25)] 0 = Inr 500
   \<and> calculateOptimalRadius demo_distance (0, 0) [(0.25, 0.25)] = 450
   \<and> spec_primary_radius inradius_by_resolution 8 500 = 440
   \<and> calculateOptimalRadius demo_distance (0, 0) [(0.25, 0.25)]
        \<noteq> spec_primary_radius inradius_by_resolution 8 500
   \<and> max_distance_loop demo_distance (0, 0) [(0.5, 0.5005)] 0 = Inr 1000.5
   \<and> calculateOptimalRadius demo_distance (0, 0) [(0.5, 0.5005)] = 900
   \<and> spec_primary_radius inradius_by_resolution 7 1000.5 = 900.45
   \<and> calculateOptimalRadius demo_distance (0, 0) [(0.5, 0.5005)]
        \<noteq> spec_primary_radius inradius_by_resolution 7 1000.5"
  by (simp add: calculateOptimalRadius_def demo_distance_def Math_round_def
        spec_primary_radius_def inradius_by_resolution_def)

text \<open>
  C6 (as amended). \<^verbatim>\<open>validateCoverage\<close> accepts a plan if and only if the plan contains
  at least one probe of type primary (hence at least one probe) and, when the cell's area
  exceeds 10 square km, at least 2 corner probes. The area is the grid library's, or 0 when
  the library fails.
\<close>

theorem validateCoverage_accepts:
  "validateCoverage h3 cov \<longleftrightarrow>
     (\<exists>p \<in> set (hc_searchPoints cov). sp_type p = Primary)
     \<and> (calculateHexagonArea h3 (hc_h3Id cov) > 10 \<longrightarrow>
          2 \<le> length (filter (\<lambda>p. sp_type p = Corner) (hc_searchPoints cov)))"
proof (cases "find (\<lambda>p. sp_type p = Primary) (hc_searchPoints cov)")
  case None
  then show ?thesis
    using find_None_Bex [of "\<lambda>p. sp_type p = Primary" "hc_searchPoints cov"]
    by (simp add: validateCoverage_def Let_def)
next
  case (Some a)
  then have "\<exists>p \<in> set (hc_searchPoints cov). sp_type p = Primary"
    using find_None_Bex [of "\<lambda>p. sp_type p = Primary" "hc_searchPoints cov"] by simp
  moreover from this have "hc_searchPoints cov \<noteq> []" by auto
  ultimately show ?thesis using Some
    by (auto simp: validateCoverage_def Let_def)
qed

theorem validateCoverage_accepts_witness:
  "validateCoverage demo_h3
     \<lparr>hc_h3Id = ''p'', hc_center = (0, 0), hc_searchPoints = [primary_point (0, 0) 1000],
      hc_totalRadius = 1000, hc_coverageStrategy = ''adaptive-coverage-optimized''\<rparr>
   \<and> \<not> validateCoverage large_h3 two_primaries
   \<and> \<not> validateCoverage demo_h3
       \<lparr>hc_h3Id = ''p'', hc_center = (0, 0), hc_searchPoints = [],
        hc_totalRadius = 1000, hc_coverageStrategy = ''adaptive-coverage-optimized''\<rparr>"
  using validateCoverage_accepts [of demo_h3
          "\<lparr>hc_h3Id = ''p'', hc_center = (0, 0), hc_searchPoints = [primary_point (0, 0) 1000],
            hc_totalRadius = 1000, hc_coverageStrategy = ''adaptive-coverage-optimized''\<rparr>"]
        validateCoverage_accepts [of large_h3 two_primaries]
        validateCoverage_accepts [of demo_h3
          "\<lparr>hc_h3Id = ''p'', hc_center = (0, 0), hc_searchPoints = [],
            hc_totalRadius = 1000, hc_coverageStrategy = ''adaptive-coverage-optimized''\<rparr>"]
  by (simp add: demo_h3_def large_h3_def two_primaries_def primary_point_def
        calculateHexagonArea_def)

text \<open>C6 as stated fails: a plan with two primary probes is accepted.\<close>

theorem validateCoverage_two_primaries_accepted:
  "validateCoverage demo_h3 two_primaries
   \<and> length (filter (\<lambda>p. sp_type p = Primary) (hc_searchPoints two_primaries)) = 2"
  by (simp add: validateCoverage_def two_primaries_def primary_point_def demo_h3_def
        calculateHexagonArea_def)

text \<open>
  C8. The plan is a function of the cell, and for a boundary of at least 3 vertices its
  probes are determined by the area alone: the primary probe when the area is at most
  3 square km; the primary and 2 corner probes when it is above 3 and at most 8; the primary,
  3 corner and 2 edge probes (6 in all) when it is above 8. The same holds for the plan
  \<^verbatim>\<open>generateSearchPoints\<close> returns for a cell.
\<close>

theorem generateAdaptiveSearchPoints_count:
  assumes "3 \<le> length boundary"
  shows "length (generateAdaptiveSearchPoints center boundary primaryRadius hexagonArea) =
           (if hexagonArea \<le> 3 then 1 else if hexagonArea \<le> 8 then 3 else 6)
         \<and> map sp_type (generateAdaptiveSearchPoints center boundary primaryRadius hexagonArea) =
           (if hexagonArea \<le> 3 then [Primary]
            else if hexagonArea \<le> 8 then [Primary, Corner, Corner]
            else [Primary, Corner, Corner, Corner, Edge, Edge])
         \<and> (cellToLatLng h3 h3Id = Inr center \<and> cellToBoundary h3 h3Id True = Inr boundary \<longrightarrow>
              (\<exists>cov. generateSearchPoints h3 distance h3Id = Inr cov
                 \<and> length (hc_searchPoints cov) =
                     (if calculateHexagonArea h3 h3Id \<le> 3 then 1
                      else if calculateHexagonArea h3 h3Id \<le> 8 then 3 else 6)))"
proof -
  from assms have m: "min 3 (length boundary) = 3" "min 2 (length boundary) = 2"
    by simp_all
  have t: "map sp_type (generateAdaptiveSearchPoints center boundary r area) =
           (if area \<le> 3 then [Primary]
            else if area \<le> 8 then [Primary, Corner, Corner]
            else [Primary, Corner, Corner, Corner, Edge, Edge])" for r area
    using m by (simp add: types_generateAdaptiveSearchPoints eval_nat_numeral)
  have l: "length (generateAdaptiveSearchPoints center boundary r area) =
           (if area \<le> 3 then 1 else if area \<le> 8 then 3 else 6)" for r area
  proof -
    have "length (generateAdaptiveSearchPoints center boundary r area) =
          length (map sp_type (generateAdaptiveSearchPoints center boundary r area))"
      by simp
    also have "\<dots> = (if area \<le> 3 then 1 else if area \<le> 8 then 3 else 6)"
      by (simp only: t) simp
    finally show ?thesis .
  qed
  have g: "\<exists>cov. generateSearchPoints h3 distance h3Id = Inr cov
                 \<and> length (hc_searchPoints cov) =
                     (if calculateHexagonArea h3 h3Id \<le> 3 then 1
                      else if calculateHexagonArea h3 h3Id \<le> 8 then 3 else 6)"
    if "cellToLatLng h3 h3Id = Inr center \<and> cellToBoundary h3 h3Id True = Inr boundary"
    using that generateSearchPoints_Inr [of h3 h3Id center boundary distance]
    by (simp add: l)
  show ?thesis
  proof (intro conjI impI)
    show "length (generateAdaptiveSearchPoints center boundary primaryRadius hexagonArea) =
           (if hexagonArea \<le> 3 then 1 else if hexagonArea \<le> 8 then 3 else 6)"
      by (rule l)
    show "map sp_type (generateAdaptiveSearchPoints center boundary primaryRadius hexagonArea) =
           (if hexagonArea \<le> 3 then [Primary]
            else if hexagonArea \<le> 8 then [Primary, Corner, Corner]
            else [Primary, Corner, Corner, Corner, Edge, Edge])"
      by (rule t)
    assume "cellToLatLng h3 h3Id = Inr center \<and> cellToBoundary h3 h3Id True = Inr boundary"
    then show "\<exists>cov. generateSearchPoints h3 distance h3Id = Inr cov
                 \<and> length (hc_searchPoints cov) =
                     (if calculateHexagonArea h3 h3Id \<le> 3 then 1
                      else if calculateHexagonArea h3 h3Id \<le> 8 then 3 else 6)"
      by (rule g)
  qed
qed

theorem generateAdaptiveSearchPoints_count_witness:
  "length (generateAdaptiveSearchPoints (0, 0) square_boundary 1166 2) = 1
   \<and> length (generateAdaptiveSearchPoints (0, 0) square_boundary 1166 5) = 3
   \<and> length (generateAdaptiveSearchPoints (0, 0) square_boundary 1166 9) = 6
   \<and> (\<exists>cov. generateSearchPoints demo_h3 demo_distance ''p'' = Inr cov
         \<and> length (hc_searchPoints cov) = 3)"
proof -
  have b: "3 \<le> length square_boundary"
    by (simp add: square_boundary_def)
  have c: "cellToLatLng demo_h3 ''p'' = Inr (0, 0)
           \<and> cellToBoundary demo_h3 ''p'' True = Inr square_boundary"
    by (simp add: demo_h3_def square_boundary_def)
  have a: "calculateHexagonArea demo_h3 ''p'' = 5"
    by (simp add: calculateHexagonArea_def demo_h3_def)
  have "length (generateAdaptiveSearchPoints (0, 0) square_boundary 1166 2) = 1"
    using generateAdaptiveSearchPoints_count
            [OF b, of "(0, 0)" 1166 2 demo_h3 "''p''" demo_distance]
    by simp
  moreover have "length (generateAdaptiveSearchPoints (0, 0) square_boundary 1166 5) = 3"
    using generateAdaptiveSearchPoints_count
            [OF b, of "(0, 0)" 1166 5 demo_h3 "''p''" demo_distance]
    by simp
  moreover have "length (generateAdaptiveSearchPoints (0, 0) square_boundary 1166 9) = 6
      \<and> (\<exists>cov. generateSearchPoints demo_h3 demo_distance ''p'' = Inr cov
             \<and> length (hc_searchPoints cov) = 3)"
    using generateAdaptiveSearchPoints_count
            [OF b, of "(0, 0)" 1166 9 demo_h3 "''p''" demo_distance] c a
    by simp
  ultimately show ?thesis
    by simp
qed

section \<open>Properties of apiQuotaManager.ts\<close>

text \<open>
  C7 (as amended). With remaining daily quota \<open>r > 0\<close> and estimated calls \<open>e\<close>,
  \<^verbatim>\<open>estimateQuotaForCity\<close> classifies the risk as low when \<open>e / r \<le> 40%\<close>, medium when
  \<open>40% < e / r \<le> 60%\<close>, high when \<open>60% < e / r \<le> 80%\<close> and critical when
  \<open>e / r > 80%\<close>. \<open>canProcessRequest\<close> is computed apart from the risk level: it is true
  exactly when \<open>e \<le> r\<close>, so a critical estimate with \<open>80% < e / r \<le> 100%\<close> can still be
  processed. With a daily limit of 100, 95 used and 10 estimated calls the risk is critical
  and \<open>canProcessRequest\<close> is false.
\<close>

theorem estimateQuotaForCity_risk:
  assumes "r = real_of_int (qm_dailyLimit m - qm_dailyUsage m)" and "0 < r"
    and "e = real_of_int hexagonCount * averageSearchPointsPerHexagon * estimatedPagesPerSearch"
    and "est = estimateQuotaForCity m hexagonCount averageSearchPointsPerHexagon
                 estimatedPagesPerSearch"
  shows "estimatedCalls est = e \<and> real_of_int (remainingQuota est) = r
     \<and> (riskLevel est = Low \<longleftrightarrow> e / r \<le> 0.4)
     \<and> (riskLevel est = Medium \<longleftrightarrow> 0.4 < e / r \<and> e / r \<le> 0.6)
     \<and> (riskLevel est = High \<longleftrightarrow> 0.6 < e / r \<and> e / r \<le> 0.8)
     \<and> (riskLevel est = Critical \<longleftrightarrow> 0.8 < e / r)
     \<and> (canProcessRequest est \<longleftrightarrow> e / r \<le> 1)"
proof -
  have d: "e / r \<le> c \<longleftrightarrow> e \<le> r * c" "c < e / r \<longleftrightarrow> r * c < e" for c
    using \<open>0 < r\<close> by (simp_all add: field_simps)
  show ?thesis
    unfolding d using assms
    by (auto simp: estimateQuotaForCity_def Let_def)
qed

theorem estimateQuotaForCity_risk_witness:
  "riskLevel (estimateQuotaForCity (quota_with 100 95) 10 1 1) = Critical
   \<and> \<not> canProcessRequest (estimateQuotaForCity (quota_with 100 95) 10 1 1)
   \<and> remainingQuota (estimateQuotaForCity (quota_with 100 95) 10 1 1) = 5
   \<and> estimatedCalls (estimateQuotaForCity (quota_with 100 95) 10 1 1) = 10"
proof -
  have r: "(5::real) = real_of_int (qm_dailyLimit (quota_with 100 95)
                                     - qm_dailyUsage (quota_with 100 95))"
    by (simp add: quota_with_def new_APIQuotaManager_def)
  have e: "(10::real) = real_of_int 10 * 1 * 1"
    by simp
  show ?thesis
    using estimateQuotaForCity_risk [OF r _ e refl]
    by simp
qed

text \<open>
  C7 as stated fails twice: an estimate of exactly 40% of the remaining quota is classified
  low, not medium; and an estimate of 90% of the remaining quota is critical while
  \<open>canProcessRequest\<close> is true.
\<close>

theorem estimateQuotaForCity_boundary_and_critical:
  "riskLevel (estimateQuotaForCity (quota_with 100 0) 40 1 1) = Low
   \<and> riskLevel (estimateQuotaForCity (quota_with 100 0) 90 1 1) = Critical
   \<and> canProcessRequest (estimateQuotaForCity (quota_with 100 0) 90 1 1)"
  by (simp add: estimateQuotaForCity_def quota_with_def new_APIQuotaManager_def)

section \<open>Properties of hexagonProcessor.ts and of the route\<close>

lemma busy_system_stats:
  "getProcessingStats (hexagonProcessor busy_system) =
     \<lparr>st_queued = 0, st_processing = 0, st_completed = 1, st_failed = 0, st_split = 1,
      st_total = 1, st_resolution7 = 1, st_resolution8 = 0, st_subdivisionQueue = 2,
      st_parentChildRelationships = 1\<rparr>"
  by (simp add: busy_system_def initial_system_def split_beta handleDenseHexagons_def
        detectDenseHexagon_def splitHexagon_def splitHexagon_body_def demo_h3_def
        new_HexagonProcessor_def updateProcessingStatus_def getProcessingStats_def Let_def)

text \<open>
  C3 (as amended). After \<^verbatim>\<open>hexagonProcessor.clearHistory()\<close> every counter of
  \<open>getProcessingStats\<close> is zero, and the quota manager is as it was: the method clears the
  six maps of the processor and nothing else. The quota is reset by the route's
  \<open>clearHistory\<close> (the action \<open>clear_history\<close>), which calls the method and then
  \<open>yelpQuotaManager.resetQuota()\<close> and \<open>yelpRateLimiter.resetDailyQuota()\<close>: after it the
  counters are zero and \<open>getQuotaStatus\<close> reports zero daily and per-second usage.
\<close>

theorem clearHistory_resets:
  "getProcessingStats (hexagonProcessor (hexagonProcessor_clearHistory sys)) = zero_stats
   \<and> yelpQuotaManager (hexagonProcessor_clearHistory sys) = yelpQuotaManager sys
   \<and> getProcessingStats (hexagonProcessor (route_clearHistory now sys)) = zero_stats
   \<and> qs_dailyUsed (getQuotaStatus (yelpQuotaManager (route_clearHistory now sys))) = 0
   \<and> qs_perSecondUsed (getQuotaStatus (yelpQuotaManager (route_clearHistory now sys))) = 0
   \<and> rl_dailyCalls (yelpRateLimiter (route_clearHistory now sys)) = 0"
  by (simp add: hexagonProcessor_clearHistory_def route_clearHistory_def clearHistory_def
        getProcessingStats_def zero_stats_def getQuotaStatus_def resetQuota_def
        resetDailyQuota_def)

theorem clearHistory_resets_witness:
  "getProcessingStats (hexagonProcessor busy_system) \<noteq> zero_stats
   \<and> getProcessingStats (hexagonProcessor (hexagonProcessor_clearHistory busy_system)) = zero_stats
   \<and> getProcessingStats (hexagonProcessor (route_clearHistory 5 busy_system)) = zero_stats
   \<and> qs_dailyUsed (getQuotaStatus (yelpQuotaManager (route_clearHistory 5 busy_system))) = 0
   \<and> qs_perSecondUsed (getQuotaStatus (yelpQuotaManager (route_clearHistory 5 busy_system))) = 0"
  using clearHistory_resets [of busy_system 5] busy_system_stats
  by (simp add: zero_stats_def)

text \<open>
  C3 as stated fails for the method: in a system that has tracked three API calls,
  \<^verbatim>\<open>hexagonProcessor.clearHistory()\<close> leaves the daily and the per-second usage at 3.
\<close>

theorem clearHistory_keeps_quota:
  "qs_dailyUsed (getQuotaStatus (yelpQuotaManager (hexagonProcessor_clearHistory busy_system))) = 3
   \<and> qs_perSecondUsed
        (getQuotaStatus (yelpQuotaManager (hexagonProcessor_clearHistory busy_system))) = 3"
  by (simp add: hexagonProcessor_clearHistory_def busy_system_def initial_system_def split_beta
        getQuotaStatus_def trackAPICall_def new_APIQuotaManager_def)

section \<open>Properties of rateLimiter.ts\<close>

lemma limiter_step_maxPerDay: "rl_maxPerDay (limiter_step e l) = rl_maxPerDay l"
  by (cases e)
     (auto simp: waitForSlot_def processQueue_def processQueue_loop_def admit_def makeRequest_def
        rl_resetDailyCounter_def rl_resetPerSecondCounter_def resetDailyQuota_def Let_def
        split: list.splits)

lemma limiter_step_dailyCalls:
  "rl_dailyCalls (limiter_step e l) = rl_dailyCalls l
   \<or> rl_dailyCalls (limiter_step e l) = 0
   \<or> (canMakeRequest l \<and> rl_dailyCalls (limiter_step e l) = rl_dailyCalls l + 1)"
  by (cases e)
     (auto simp: waitForSlot_def processQueue_def processQueue_loop_def admit_def makeRequest_def
        canMakeRequest_def
        rl_resetDailyCounter_def rl_resetPerSecondCounter_def resetDailyQuota_def Let_def
        split: list.splits if_splits)

lemma canMakeRequest_daily: "canMakeRequest l \<Longrightarrow> rl_dailyCalls l < rl_maxPerDay l"
  by (auto simp: canMakeRequest_def split: if_splits)

lemma limiter_step_invariant:
  assumes "0 \<le> rl_dailyCalls l" and "rl_dailyCalls l \<le> rl_maxPerDay l"
  shows "0 \<le> rl_dailyCalls (limiter_step e l) \<and> rl_dailyCalls (limiter_step e l) \<le> rl_maxPerDay (limiter_step e l)"
  using assms limiter_step_dailyCalls [of e l] canMakeRequest_daily [of l]
  by (auto simp: limiter_step_maxPerDay)

lemma limiter_run_invariant:
  assumes "0 \<le> rl_dailyCalls l" and "rl_dailyCalls l \<le> rl_maxPerDay l"
  shows "0 \<le> rl_dailyCalls (limiter_run es l) \<and> rl_dailyCalls (limiter_run es l) \<le> rl_maxPerDay (limiter_run es l)"
  using assms
proof (induction es arbitrary: l)
  case Nil
  then show ?case by simp
next
  case (Cons e es)
  then show ?case using limiter_step_invariant [of l e] by simp
qed

lemma limiter_run_maxPerDay: "rl_maxPerDay (limiter_run es l) = rl_maxPerDay l"
  by (induction es arbitrary: l) (simp_all add: limiter_step_maxPerDay)

text \<open>
  C9. From a state with \<open>0 \<le> dailyCalls \<le> maxPerDay\<close>, every sequence of events keeps
  \<open>0 \<le> dailyCalls \<le> maxPerDay\<close>, and \<open>maxPerDay\<close> never changes. In every step from every
  state \<open>dailyCalls\<close> stays as it is, is reset to 0, or grows by one, and it grows only when
  \<open>canMakeRequest\<close> holds in the state before, that is when \<open>dailyCalls < maxPerDay\<close>; this
  covers the direct path of \<open>waitForSlot\<close> and the queued path of \<open>processQueue\<close>.
\<close>

theorem rateLimiter_daily_invariant:
  assumes "0 \<le> rl_dailyCalls l" and "rl_dailyCalls l \<le> rl_maxPerDay l"
  shows "0 \<le> rl_dailyCalls (limiter_run es l)
     \<and> rl_dailyCalls (limiter_run es l) \<le> rl_maxPerDay (limiter_run es l)
     \<and> rl_maxPerDay (limiter_run es l) = rl_maxPerDay l
     \<and> (rl_dailyCalls (limiter_step e l') = rl_dailyCalls l'
          \<or> rl_dailyCalls (limiter_step e l') = 0
          \<or> (canMakeRequest l' \<and> rl_dailyCalls l' < rl_maxPerDay l'
               \<and> rl_dailyCalls (limiter_step e l') = rl_dailyCalls l' + 1))"
proof -
  have "0 \<le> rl_dailyCalls (limiter_run es l)
     \<and> rl_dailyCalls (limiter_run es l) \<le> rl_maxPerDay (limiter_run es l)"
    using assms by (rule limiter_run_invariant)
  moreover have "rl_maxPerDay (limiter_run es l) = rl_maxPerDay l"
    by (rule limiter_run_maxPerDay)
  moreover have "rl_dailyCalls (limiter_step e l') = rl_dailyCalls l'
          \<or> rl_dailyCalls (limiter_step e l') = 0
          \<or> (canMakeRequest l' \<and> rl_dailyCalls l' < rl_maxPerDay l'
               \<and> rl_dailyCalls (limiter_step e l') = rl_dailyCalls l' + 1)"
    using limiter_step_dailyCalls [of e l'] canMakeRequest_daily [of l'] by blast
  ultimately show ?thesis by blast
qed

theorem rateLimiter_daily_invariant_witness:
  "0 \<le> rl_dailyCalls (new_RateLimiter 0 1 2)
   \<and> rl_dailyCalls (new_RateLimiter 0 1 2) \<le> rl_maxPerDay (new_RateLimiter 0 1 2)
   \<and> rl_dailyCalls (limiter_run three_callers (new_RateLimiter 0 1 2)) = 2
   \<and> rl_dailyCalls (limiter_run three_callers (new_RateLimiter 0 1 2))
        \<le> rl_maxPerDay (limiter_run three_callers (new_RateLimiter 0 1 2))
   \<and> rl_resolved (limiter_run three_callers (new_RateLimiter 0 1 2)) = [1, 2]
   \<and> rl_requestQueue (limiter_run three_callers (new_RateLimiter 0 1 2)) = [3]"
proof -
  have a: "0 \<le> rl_dailyCalls (new_RateLimiter 0 1 2)"
    by (simp add: new_RateLimiter_def)
  have b: "rl_dailyCalls (new_RateLimiter 0 1 2) \<le> rl_maxPerDay (new_RateLimiter 0 1 2)"
    by (simp add: new_RateLimiter_def)
  have r: "limiter_run three_callers (new_RateLimiter 0 1 2) =
             \<lparr>rl_dailyCalls = 2, rl_lastReset = 0, rl_perSecondCalls = 1,
              rl_lastSecondReset = 1000, rl_requestQueue = [3], rl_isProcessing = False,
              rl_maxPerSecond = 1, rl_maxPerDay = 2, rl_resolved = [1, 2], rl_timers = 2\<rparr>"
    by (simp add: three_callers_def new_RateLimiter_def waitForSlot_def processQueue_def
          processQueue_loop_def admit_def makeRequest_def canMakeRequest_def
          rl_resetDailyCounter_def rl_resetPerSecondCounter_def resetDailyQuota_def Let_def)
  have "rl_dailyCalls (limiter_run three_callers (new_RateLimiter 0 1 2))
          \<le> rl_maxPerDay (limiter_run three_callers (new_RateLimiter 0 1 2))"
    using rateLimiter_daily_invariant [OF a b, of three_callers] by blast
  with a b show ?thesis
    by (simp add: r)
qed

section \<open>Properties of yelpSearch.ts\<close>

























end
